theory Spec2Isabelle
  imports Complex_Main "HOL-Library.Sublist" "HOL-Library.Multiset"
begin

section \<open>Python exceptions\<close>

text \<open>
  What a Python call can raise.  \<open>except Exception\<close> catches every exception class
  derived from \<open>Exception\<close>; \<open>SystemExit\<close> and \<open>KeyboardInterrupt\<close> derive from
  \<open>BaseException\<close> only and pass through such a handler.
\<close>

datatype py_raise =
    FileNotFoundError string
  | KeyError string
  | ValueError string
  | OSError string
  | IndexError string
  | OtherException string
  | BaseExceptionOnly string

fun is_Exception :: "py_raise \<Rightarrow> bool" where
  "is_Exception (BaseExceptionOnly _) = False"
| "is_Exception _ = True"

fun str_of :: "py_raise \<Rightarrow> string" where
  "str_of (FileNotFoundError m) = m"
| "str_of (KeyError m) = m"
| "str_of (ValueError m) = m"
| "str_of (OSError m) = m"
| "str_of (IndexError m) = m"
| "str_of (OtherException m) = m"
| "str_of (BaseExceptionOnly m) = m"

section \<open>run\_pipeline.py\<close>

text \<open>
  \<open>str.replace(old, new)\<close> for a non-empty \<open>old\<close>: the non-overlapping occurrences
  are replaced from left to right.
\<close>

function str_replace :: "string \<Rightarrow> string \<Rightarrow> string \<Rightarrow> string" where
  "str_replace old new [] = []"
| "str_replace old new (c # cs) =
     (if old \<noteq> [] \<and> prefix old (c # cs)
      then new @ str_replace old new (drop (length old) (c # cs))
      else c # str_replace old new cs)"
  by pat_completeness auto
termination
  by (relation "measure (\<lambda>(old, new, s). length s)") (auto simp: neq_Nil_conv)

text \<open>
  A module object as \<open>run_step\<close> sees it: whether it has an attribute \<open>main\<close>, and what
  calling it does to the world (the files on disk): it returns, or it raises.
\<close>

datatype 'w py_module = Module (main_attr: "('w \<Rightarrow> py_raise option \<times> 'w) option")

text \<open>\<open>__import__(name, fromlist=['main'])\<close>: the module of that name, or the exception
  the import raises.\<close>

type_synonym 'w importer = "string \<Rightarrow> py_raise + 'w py_module"

datatype event =
    SectionPrinted string
  | MainInvoked string
  | CompletedPrinted string
  | FailedPrinted string string
  | HaltPrinted
  | SummaryLine string bool
  | SuccessBanner

definition print_section :: "string \<Rightarrow> event list" where
  "print_section title = [SectionPrinted title]"

text \<open>
  \<open>run_step\<close>: the value returned (\<open>Inr\<close>) or the exception that leaves the function
  (\<open>Inl\<close>, only one that is not an \<open>Exception\<close>), what was printed, and the world after.
\<close>

definition module_name_of :: "string \<Rightarrow> string" where
  "module_name_of module_path = str_replace ''.py'' '''' (str_replace ''/'' ''.'' module_path)"

definition run_step ::
  "'w importer \<Rightarrow> string \<Rightarrow> string \<Rightarrow> 'w \<Rightarrow> (py_raise + bool) \<times> event list \<times> 'w" where
  "run_step imp step_name module_path w =
     (let sec = print_section (''STEP: '' @ step_name);
          module_name = module_name_of module_path
      in case imp module_name of
           Inl e \<Rightarrow>
             if is_Exception e
             then (Inr False, sec @ [FailedPrinted step_name (str_of e)], w)
             else (Inl e, sec, w)
         | Inr m \<Rightarrow>
             (case main_attr m of
                None \<Rightarrow> (Inr True, sec @ [CompletedPrinted step_name], w)
              | Some f \<Rightarrow>
                  (case f w of
                     (None, w') \<Rightarrow>
                       (Inr True, sec @ [MainInvoked module_name, CompletedPrinted step_name], w')
                   | (Some e, w') \<Rightarrow>
                       if is_Exception e
                       then (Inr False,
                             sec @ [MainInvoked module_name, FailedPrinted step_name (str_of e)], w')
                       else (Inl e, sec @ [MainInvoked module_name], w'))))"









text \<open>An importer for a run in which the third step raises and the fourth module has
  no \<open>main\<close>; the world counts the calls of a \<open>main\<close>.\<close>

definition demo_importer :: "nat importer" where
  "demo_importer name =
     (if name = ''src.feature_selection''
      then Inr (Module (Some (\<lambda>w. (Some (KeyError ''Severity''), w + 1))))
      else if name = ''src.train'' then Inr (Module None)
      else Inr (Module (Some (\<lambda>w. (None, w + 1)))))"

section \<open>Data frames\<close>

text \<open>
  A pandas \<open>DataFrame\<close> is held column-wise, as the dict of columns it is built from:
  the column names in order, each with its values.  Floating-point values are taken as
  reals.  \<open>NaNCell\<close> is the value pandas fills in for a missing entry.
\<close>

datatype cell = IntCell int | FloatCell real | StrCell string | NaNCell

type_synonym dataframe = "(string \<times> cell list) list"

definition nrows :: "dataframe \<Rightarrow> nat" where
  "nrows df = (case df of [] \<Rightarrow> 0 | (name, v) # rest \<Rightarrow> length v)"

definition column_names :: "dataframe \<Rightarrow> string list" where
  "column_names df = map fst df"

text \<open>The rows of a frame, each the list of its values in column order.\<close>

definition rows_of :: "dataframe \<Rightarrow> cell list list" where
  "rows_of df = map (\<lambda>i. map (\<lambda>(name, v). v ! i) df) [0..<nrows df]"

text \<open>\<open>df[name]\<close>: the column, or \<open>KeyError\<close>.\<close>

definition getitem :: "dataframe \<Rightarrow> string \<Rightarrow> py_raise + cell list" where
  "getitem df name = (case map_of df name of None \<Rightarrow> Inl (KeyError name) | Some v \<Rightarrow> Inr v)"


text \<open>
  \<open>print(f"{df[name].min():.2f} - {df[name].max():.2f}")\<close>, as the modules print the range
  of a feature: indexing raises \<open>KeyError\<close> for a missing column, and the format \<open>.2f\<close>
  raises \<open>ValueError\<close> when the column holds text.  \<open>print_ranges\<close> is the sequence of
  these prints for the given columns; \<open>None\<close> means that none has raised.
\<close>

definition is_text :: "cell \<Rightarrow> bool" where
  "is_text c = (case c of StrCell t \<Rightarrow> True | _ \<Rightarrow> False)"

definition format_range :: "cell list \<Rightarrow> py_raise + unit" where
  "format_range v =
     (if list_ex is_text v then Inl (ValueError ''Unknown format code f for object of type str'')
      else Inr ())"

fun print_ranges :: "dataframe \<Rightarrow> string list \<Rightarrow> py_raise option" where
  "print_ranges df [] = None"
| "print_ranges df (name # names) =
     (case getitem df name of
        Inl e \<Rightarrow> Some e
      | Inr v \<Rightarrow> (case format_range v of Inl e \<Rightarrow> Some e | Inr u \<Rightarrow> print_ranges df names))"

text \<open>
  \<open>pd.concat(frames, ignore_index=True)\<close>: the columns are those of all the frames in
  order of first appearance, the rows those of the frames one after the other; a frame
  that lacks a column contributes \<open>NaN\<close> there.  With no frame it raises.
\<close>

definition column_or_nan :: "dataframe \<Rightarrow> string \<Rightarrow> cell list" where
  "column_or_nan df name =
     (case map_of df name of None \<Rightarrow> replicate (nrows df) NaNCell | Some v \<Rightarrow> v)"

definition pd_concat :: "dataframe list \<Rightarrow> py_raise + dataframe" where
  "pd_concat frames =
     (if frames = [] then Inl (ValueError ''No objects to concatenate'')
      else Inr (map (\<lambda>name. (name, concat (map (\<lambda>df. column_or_nan df name) frames)))
                    (rev (remdups (rev (concat (map column_names frames)))))))"

section \<open>numpy's random generators\<close>

text \<open>
  The Mersenne Twister itself is not modelled.  The library is a parameter:
  \<open>seeded_gauss s k\<close> is the \<open>k\<close>-th standard normal deviate that the legacy generator
  yields after \<open>seed(s)\<close>, and \<open>seeded_interval s k m\<close> is what the \<open>k\<close>-th call of
  \<open>random_interval\<close> with maximum \<open>m\<close> of a \<open>RandomState(s)\<close> draws.
\<close>

record numpy =
  seeded_gauss :: "int \<Rightarrow> nat \<Rightarrow> real"
  seeded_interval :: "int \<Rightarrow> nat \<Rightarrow> nat \<Rightarrow> nat"

text \<open>The state of the global generator: the deviates it will yield from now on.\<close>

type_synonym np_random = "nat \<Rightarrow> real"

text \<open>\<open>np.random.normal(loc, scale, n)\<close>: each value is \<open>loc + scale * gauss\<close>; the \<open>n\<close>
  deviates are consumed.\<close>

definition random_normal :: "real \<Rightarrow> real \<Rightarrow> nat \<Rightarrow> np_random \<Rightarrow> real list \<times> np_random" where
  "random_normal loc scale n g = (map (\<lambda>i. loc + scale * g i) [0..<n], (\<lambda>i. g (i + n)))"

text \<open>
  \<open>RandomState.shuffle\<close> on a one-dimensional array:
  \<open>for i in reversed(range(1, n)): j = random_interval(i); x[i], x[j] = x[j], x[i]\<close>.
  \<open>k\<close> counts the draws made so far; a draw with maximum \<open>m\<close> lies in \<open>0..m\<close>.
\<close>

fun shuffle_loop :: "(nat \<Rightarrow> nat \<Rightarrow> nat) \<Rightarrow> nat \<Rightarrow> nat \<Rightarrow> 'a list \<Rightarrow> 'a list" where
  "shuffle_loop draw k 0 xs = xs"
| "shuffle_loop draw k (Suc i) xs =
     (let j = draw k (Suc i) mod Suc (Suc i)
      in shuffle_loop draw (Suc k) i (xs[Suc i := xs ! j, j := xs ! Suc i]))"

text \<open>\<open>RandomState.permutation(n)\<close>: \<open>arange(n)\<close>, shuffled.\<close>

definition permutation :: "(nat \<Rightarrow> nat \<Rightarrow> nat) \<Rightarrow> nat \<Rightarrow> nat list" where
  "permutation draw n = shuffle_loop draw 0 (n - 1) [0..<n]"

text \<open>
  \<open>df.sample(frac=1, random_state=s).reset_index(drop=True)\<close>: the rows taken at the
  positions \<open>RandomState(s).permutation(len(df))\<close>.
\<close>

definition take_rows :: "dataframe \<Rightarrow> nat list \<Rightarrow> dataframe" where
  "take_rows df locs = map (\<lambda>(name, v). (name, map (\<lambda>i. v ! i) locs)) df"

definition sample_all :: "numpy \<Rightarrow> int \<Rightarrow> dataframe \<Rightarrow> dataframe" where
  "sample_all np s df = take_rows df (permutation (seeded_interval np s) (nrows df))"

section \<open>Files\<close>

text \<open>
  A fitted classifier as the code uses it: \<open>predict\<close> and \<open>predict_proba\<close> on the rows
  of a three-column frame, each returning its array or raising.
\<close>

record classifier =
  predict :: "cell list list \<Rightarrow> py_raise + int list"
  predict_proba :: "cell list list \<Rightarrow> py_raise + real list list"

datatype file_content = Csv dataframe | Pkl classifier | Png

record filesystem =
  dirs :: "string set"
  files :: "string \<rightharpoonup> file_content"

text \<open>The ancestors of a relative path, outermost first, and its parent (the empty
  string is the working directory).\<close>

definition path_parents :: "string \<Rightarrow> string list" where
  "path_parents p = map (\<lambda>i. take i p) (filter (\<lambda>i. p ! i = CHR ''/'') [0..<length p])"

definition dirname :: "string \<Rightarrow> string" where
  "dirname p = (if path_parents p = [] then [] else last (path_parents p))"

definition is_dir :: "filesystem \<Rightarrow> string \<Rightarrow> bool" where
  "is_dir fs d = (d = [] \<or> d \<in> dirs fs)"

text \<open>\<open>Path(d).mkdir(parents=True, exist_ok=True)\<close>.\<close>

definition mkdir_parents :: "string \<Rightarrow> filesystem \<Rightarrow> filesystem" where
  "mkdir_parents d fs =
     (if d = [] then fs else fs\<lparr>dirs := dirs fs \<union> set (path_parents d) \<union> {d}\<rparr>)"

text \<open>
  \<open>pd.read_csv(path)\<close> and \<open>df.to_csv(path, index=False)\<close>.  The text of the file is not
  modelled: a CSV file holds the frame written to it.  Reading a missing file raises
  \<open>FileNotFoundError\<close>; writing into a directory that does not exist raises \<open>OSError\<close>.
\<close>

definition read_csv :: "filesystem \<Rightarrow> string \<Rightarrow> py_raise + dataframe" where
  "read_csv fs path =
     (case files fs path of
        None \<Rightarrow> Inl (FileNotFoundError path)
      | Some (Csv df) \<Rightarrow> Inr df
      | Some _ \<Rightarrow> Inl (OtherException ''ParserError''))"

definition to_csv :: "dataframe \<Rightarrow> string \<Rightarrow> filesystem \<Rightarrow> py_raise + filesystem" where
  "to_csv df path fs =
     (if is_dir fs (dirname path) then Inr (fs\<lparr>files := (files fs)(path \<mapsto> Csv df)\<rparr>)
      else Inl (OSError ''Cannot save file into a non-existent directory''))"

text \<open>The state the modules of the pipeline work on: the files, and numpy's global
  generator.\<close>

record world =
  fs :: filesystem
  np_global :: np_random

section \<open>src/data\_generator.py\<close>

record PentacamDataGenerator =
  n_per_class :: int
  random_state :: int
  severity_stages :: "int list"

text \<open>\<open>__init__\<close> stores its arguments and seeds the global generator.\<close>

definition PentacamDataGenerator_init ::
  "numpy \<Rightarrow> int \<Rightarrow> int \<Rightarrow> np_random \<Rightarrow> PentacamDataGenerator \<times> np_random" where
  "PentacamDataGenerator_init np n rs g =
     (\<lparr>n_per_class = n, random_state = rs, severity_stages = [0, 1, 2, 3, 4]\<rparr>,
      seeded_gauss np rs)"

text \<open>\<open>_generate_stage_data\<close>.  \<open>np.full(n, stage)\<close> raises for a negative \<open>n\<close>.\<close>

definition generate_stage_data ::
  "PentacamDataGenerator \<Rightarrow> int \<Rightarrow> np_random \<Rightarrow> (py_raise + dataframe) \<times> np_random" where
  "generate_stage_data self stage g =
     (let n = n_per_class self;
          pachy_min_mean = 520 - real_of_int stage * 30;
          rm_b_mean = 6.5 - real_of_int stage * 0.4;
          rm_f_mean = 7.8 - real_of_int stage * 0.35
      in if n < 0 then (Inl (ValueError ''negative dimensions are not allowed''), g)
         else
           (let (rm_b, g1) = random_normal rm_b_mean 0.25 (nat n) g;
                (rm_f, g2) = random_normal rm_f_mean 0.3 (nat n) g1;
                (pachy, g3) = random_normal pachy_min_mean 20 (nat n) g2
            in (Inr [(''Severity'', replicate (nat n) (IntCell stage)),
                     (''Rm_B'', map FloatCell rm_b),
                     (''Rm_F'', map FloatCell rm_f),
                     (''Pachy_Min'', map FloatCell pachy)],
                g3)))"

text \<open>The loop \<open>for stage in self.severity_stages\<close> of \<open>generate_dataset\<close>.\<close>

fun generate_stages ::
  "PentacamDataGenerator \<Rightarrow> int list \<Rightarrow> dataframe list \<Rightarrow> np_random
   \<Rightarrow> (py_raise + dataframe list) \<times> np_random" where
  "generate_stages self [] stage_data g = (Inr stage_data, g)"
| "generate_stages self (stage # rest) stage_data g =
     (case generate_stage_data self stage g of
        (Inl e, g') \<Rightarrow> (Inl e, g')
      | (Inr df_stage, g') \<Rightarrow> generate_stages self rest (stage_data @ [df_stage]) g')"

text \<open>\<open>generate_dataset\<close>: the frame returned (or the exception raised), and the world
  after.  An \<open>output_path\<close> that is \<open>None\<close> or empty is not written.\<close>

definition generate_dataset ::
  "numpy \<Rightarrow> PentacamDataGenerator \<Rightarrow> string option \<Rightarrow> world \<Rightarrow> (py_raise + dataframe) \<times> world" where
  "generate_dataset np self output_path w =
     (case generate_stages self (severity_stages self) [] (np_global w) of
        (Inl e, g') \<Rightarrow> (Inl e, w\<lparr>np_global := g'\<rparr>)
      | (Inr stage_data, g') \<Rightarrow>
          (case pd_concat stage_data of
             Inl e \<Rightarrow> (Inl e, w\<lparr>np_global := g'\<rparr>)
           | Inr df_all \<Rightarrow>
               (let df_complete = sample_all np (random_state self) df_all;
                    w1 = w\<lparr>np_global := g'\<rparr>
                in if output_path = None \<or> output_path = Some []
                   then (Inr df_complete, w1)
                   else
                     (let fs1 = mkdir_parents (dirname (the output_path)) (fs w1)
                      in case to_csv df_complete (the output_path) fs1 of
                           Inl e \<Rightarrow> (Inl e, w1\<lparr>fs := fs1\<rparr>)
                         | Inr fs2 \<Rightarrow> (Inr df_complete, w1\<lparr>fs := fs2\<rparr>)))))"

definition raw_path :: string where
  "raw_path = ''data/raw/synthetic_pentacam_79_features.csv''"

definition preprocessed_path :: string where
  "preprocessed_path = ''data/processed/preprocessed_data.csv''"

definition selected_path :: string where
  "selected_path = ''data/processed/selected_features_data.csv''"

definition model_path :: string where
  "model_path = ''models/rf_kc_severity.pkl''"


section \<open>src/preprocessing.py\<close>

text \<open>
  \<open>main\<close> reads the raw file, prints the range of each of the three feature columns
  (which raises for a column that is not there or holds text), and writes the frame as
  read.
\<close>

definition preprocessing_main :: "world \<Rightarrow> py_raise option \<times> world" where
  "preprocessing_main w =
     (case read_csv (fs w) raw_path of
        Inl e \<Rightarrow> (Some e, w)
      | Inr df \<Rightarrow>
          (case print_ranges df [''Rm_B'', ''Rm_F'', ''Pachy_Min''] of
             Some e \<Rightarrow> (Some e, w)
           | None \<Rightarrow>
               (case to_csv df preprocessed_path (fs w) of
                  Inl e \<Rightarrow> (Some e, w)
                | Inr fs' \<Rightarrow> (None, w\<lparr>fs := fs'\<rparr>))))"

section \<open>src/feature\_selection.py\<close>

text \<open>
  \<open>main\<close> reads the preprocessed file, names the three selected features (the list is
  only printed) and writes the frame as read.  The plot is made inside \<open>try ... except:\<close>;
  whether seaborn draws the frame is a parameter, and saving needs the directory
  \<open>models\<close>; a failure there is swallowed.
\<close>

definition selected_features :: "string list" where
  "selected_features = [''Rm_B'', ''Rm_F'', ''Pachy_Min'']"

definition feature_selection_main :: "(dataframe \<Rightarrow> bool) \<Rightarrow> world \<Rightarrow> py_raise option \<times> world" where
  "feature_selection_main pairplot_ok w =
     (case read_csv (fs w) preprocessed_path of
        Inl e \<Rightarrow> (Some e, w)
      | Inr df \<Rightarrow>
          (case to_csv df selected_path (fs w) of
             Inl e \<Rightarrow> (Some e, w)
           | Inr fs1 \<Rightarrow>
               (let plot_df = df
                in if pairplot_ok plot_df \<and> is_dir fs1 ''models''
                   then (None,
                         w\<lparr>fs := fs1\<lparr>files := (files fs1)(''models/feature_pairplot.png'' \<mapsto> Png)\<rparr>\<rparr>)
                   else (None, w\<lparr>fs := fs1\<rparr>))))"

section \<open>scikit-learn and joblib\<close>


text \<open>\<open>joblib.load\<close> and \<open>joblib.dump\<close>: a pickle file holds the classifier dumped to it.\<close>

definition joblib_load :: "filesystem \<Rightarrow> string \<Rightarrow> py_raise + classifier" where
  "joblib_load fsys path =
     (case files fsys path of
        None \<Rightarrow> Inl (FileNotFoundError path)
      | Some (Pkl m) \<Rightarrow> Inr m
      | Some _ \<Rightarrow> Inl (OtherException ''UnpicklingError''))"


text \<open>\<open>xs[0]\<close> and \<open>xs[i]\<close> on an array: a negative index counts from the end.\<close>

definition first_item :: "'a list \<Rightarrow> py_raise + 'a" where
  "first_item xs =
     (if xs = [] then Inl (IndexError ''index 0 is out of bounds'') else Inr (hd xs))"




section \<open>src/train.py\<close>


section \<open>src/evaluate.py\<close>

record ModelEvaluator =
  model :: "classifier option"















section \<open>app/streamlit\_app.py\<close>

text \<open>
  Streamlit is a parameter: what each slider and the button return in this run of the
  script.  A slider is called with its label, minimum, maximum, default value and step.
  The labels are written here in ASCII, without their pictographs and with \<open>um\<close> for the
  micrometre.
\<close>

record streamlit =
  float_slider :: "string \<Rightarrow> real \<Rightarrow> real \<Rightarrow> real \<Rightarrow> real \<Rightarrow> real"
  int_slider :: "string \<Rightarrow> int \<Rightarrow> int \<Rightarrow> int \<Rightarrow> int \<Rightarrow> int"
  button :: "string \<Rightarrow> bool"

text \<open>What Streamlit promises of a slider: its value lies between the minimum and the
  maximum it was created with.\<close>

definition slider_contract :: "streamlit \<Rightarrow> bool" where
  "slider_contract st =
     ((\<forall>label lo hi v step. lo \<le> v \<and> v \<le> hi \<longrightarrow>
          lo \<le> float_slider st label lo hi v step \<and> float_slider st label lo hi v step \<le> hi)
      \<and> (\<forall>label lo hi v step. lo \<le> v \<and> v \<le> hi \<longrightarrow>
          lo \<le> int_slider st label lo hi v step \<and> int_slider st label lo hi v step \<le> hi))"

datatype st_output =
    ErrorShown string
  | InfoShown string
  | PredictionShown string "real list"

text \<open>How a run of the script ends: to its end, by \<open>st.stop()\<close>, or by an exception that
  nothing catches.\<close>

datatype app_end = Finished | Stopped | Raised py_raise

text \<open>\<open>load_model\<close>: the model, or the two error messages and \<open>st.stop()\<close> when the file is
  not there.\<close>

definition load_model :: "filesystem \<Rightarrow> (app_end \<times> st_output list) + classifier" where
  "load_model fsys =
     (if files fsys model_path \<noteq> None
      then (case joblib_load fsys model_path of
              Inl e \<Rightarrow> Inl (Raised e, [])
            | Inr m \<Rightarrow> Inr m)
      else Inl (Stopped, [ErrorShown ''Model file not found'',
                          ErrorShown ''Please run: python run_pipeline.py'']))"

definition get_severity_info :: "int \<Rightarrow> string" where
  "get_severity_info stage =
     (if stage = 0 then ''Stage 0 - Normal''
      else if stage = 1 then ''Stage 1 - Mild KC''
      else if stage = 2 then ''Stage 2 - Moderate KC''
      else if stage = 3 then ''Stage 3 - Advanced KC''
      else if stage = 4 then ''Stage 4 - Severe KC''
      else ''Stage 0 - Normal'')"

text \<open>
  \<open>main\<close>: how the run ends, what it shows, and the frames it has passed to the model
  (to \<open>predict\<close>, and to \<open>predict_proba\<close> when that is reached).
\<close>

definition app_main ::
  "streamlit \<Rightarrow> filesystem \<Rightarrow> app_end \<times> st_output list \<times> dataframe list" where
  "app_main st fsys =
     (case load_model fsys of
        Inl (e, out) \<Rightarrow> (e, out, [])
      | Inr m \<Rightarrow>
     (let rm_b = float_slider st ''Rm_B (mm)'' 4.0 8.0 6.5 0.1;
          rm_f = float_slider st ''Rm_F (mm)'' 5.0 9.0 7.8 0.1;
          pachy_min = int_slider st ''Pachy_Min (um)'' 200 600 520 5;
          predict_button = button st ''Predict Severity''
      in if \<not> predict_button then (Finished, [], [])
         else
     (let input_data = [(''Rm_B'', [FloatCell rm_b]), (''Rm_F'', [FloatCell rm_f]),
                        (''Pachy_Min'', [IntCell pachy_min])];
          attempt =
            (case predict m (rows_of input_data) of
               Inl e \<Rightarrow> (Inl e, [input_data])
             | Inr preds \<Rightarrow>
            (case first_item preds of
               Inl e \<Rightarrow> (Inl e, [input_data])
             | Inr prediction \<Rightarrow>
            (case predict_proba m (rows_of input_data) of
               Inl e \<Rightarrow> (Inl e, [input_data, input_data])
             | Inr probas \<Rightarrow>
            (case first_item probas of
               Inl e \<Rightarrow> (Inl e, [input_data, input_data])
             | Inr probabilities \<Rightarrow> (Inr (prediction, probabilities), [input_data, input_data])))))
      in case attempt of
           (Inl e, queries) \<Rightarrow>
             if is_Exception e
             then (Stopped,
                   [ErrorShown (''Prediction error: '' @ str_of e),
                    InfoShown ''Please retrain the model: python run_pipeline.py''],
                   queries)
             else (Raised e, [], queries)
         | (Inr (prediction, probabilities), queries) \<Rightarrow>
             if length probabilities \<noteq> 5
             then (Raised (ValueError ''All arrays must be of the same length''), [], queries)
             else (Finished,
                   [PredictionShown (get_severity_info prediction)
                      (map (\<lambda>p. p * 100) probabilities)],
                   queries))))"

section \<open>What the generator is to produce\<close>




text \<open>A fresh generator is constructed and \<open>generate_dataset\<close> is called on it, as
  \<open>main\<close> does, for any arguments.\<close>

definition fresh_generate_dataset ::
  "numpy \<Rightarrow> int \<Rightarrow> int \<Rightarrow> string option \<Rightarrow> world \<Rightarrow> (py_raise + dataframe) \<times> world" where
  "fresh_generate_dataset np n rs output_path w =
     (let (generator, g) = PentacamDataGenerator_init np n rs (np_global w)
      in generate_dataset np generator output_path (w\<lparr>np_global := g\<rparr>))"



section \<open>The invariants of a dataset\<close>



text \<open>The dataset held by the CSV file at a path, if there is one.\<close>

definition dataset_at :: "world \<Rightarrow> string \<Rightarrow> dataframe option" where
  "dataset_at w path = (case files (fs w) path of Some (Csv df) \<Rightarrow> Some df | _ \<Rightarrow> None)"


text \<open>Small frames and worlds on which the stages can be run: a frame of the pipeline's
  shape, one with a further measurement, and a world that holds one CSV file.\<close>

definition one_row_frame :: dataframe where
  "one_row_frame =
     [(''Severity'', [IntCell 2]), (''Rm_B'', [FloatCell 5.7]), (''Rm_F'', [FloatCell 7.0]),
      (''Pachy_Min'', [FloatCell 448])]"

definition wide_frame :: dataframe where
  "wide_frame = one_row_frame @ [(''K_Max'', [FloatCell 47.5])]"

definition world_with :: "string \<Rightarrow> dataframe \<Rightarrow> world" where
  "world_with path df =
     \<lparr>fs = \<lparr>dirs = {''data'', ''data/raw'', ''data/processed'', ''models''},
             files = [path \<mapsto> Csv df]\<rparr>,
      np_global = (\<lambda>k. 0)\<rparr>"


definition always_plots :: "dataframe \<Rightarrow> bool" where
  "always_plots df = True"



section \<open>What the evaluator and the form are to do\<close>


text \<open>A query lies within the ranges of the three sliders of the form.\<close>

definition query_in_range :: "dataframe \<Rightarrow> bool" where
  "query_in_range q =
     (case q of
        [(c1, [FloatCell b]), (c2, [FloatCell f]), (c3, [IntCell p])] \<Rightarrow>
          c1 = ''Rm_B'' \<and> c2 = ''Rm_F'' \<and> c3 = ''Pachy_Min''
          \<and> 4 \<le> b \<and> b \<le> 8 \<and> 5 \<le> f \<and> f \<le> 9 \<and> 200 \<le> p \<and> p \<le> 600
      | _ \<Rightarrow> False)"


text \<open>
  Stand-ins on which the definitions can be run: a classifier that always predicts
  stage 2, metric functions, a world holding a raw dataset and a persisted model, a world
  whose raw dataset has labels only, and a form whose sliders are at an end of their
  range with the button pressed.
\<close>

definition demo_classifier :: classifier where
  "demo_classifier =
     \<lparr>predict = (\<lambda>rows. Inr (map (\<lambda>r. 2) rows)),
      predict_proba = (\<lambda>rows. Inr (map (\<lambda>r. [0, 0.1, 0.8, 0.1, 0]) rows))\<rparr>"


definition trained_world :: world where
  "trained_world =
     \<lparr>fs = \<lparr>dirs = {''data'', ''data/raw'', ''data/processed'', ''models''},
             files = [raw_path \<mapsto> Csv one_row_frame, model_path \<mapsto> Pkl demo_classifier]\<rparr>,
      np_global = (\<lambda>k. 0)\<rparr>"


definition demo_streamlit :: streamlit where
  "demo_streamlit =
     \<lparr>float_slider = (\<lambda>label lo hi v step. hi),
      int_slider = (\<lambda>label lo hi v step. lo),
      button = (\<lambda>label. True)\<rparr>"

section \<open>The orchestrator: order of the steps and halting\<close>













section \<open>A step whose module has no main\<close>

text \<open>
  Claim C10.  When the module of a step imports successfully and defines no \<open>main\<close>,
  \<open>run_step\<close> returns \<open>True\<close>, prints the step as completed and leaves the world as it
  was; \<open>main\<close> is invoked exactly when the import succeeded and the attribute is present.
\<close>

theorem run_step_without_main_passes:
  "(imp (module_name_of module_path) = Inr (Module None) \<longrightarrow>
      run_step imp step_name module_path w =
        (Inr True, print_section (''STEP: '' @ step_name) @ [CompletedPrinted step_name], w))
   \<and> ((\<exists>x. MainInvoked x \<in> set (fst (snd (run_step imp step_name module_path w))))
        \<longleftrightarrow> (\<exists>f. imp (module_name_of module_path) = Inr (Module (Some f))))"
proof -
  have a: "imp (module_name_of module_path) = Inr (Module None) \<longrightarrow>
      run_step imp step_name module_path w =
        (Inr True, print_section (''STEP: '' @ step_name) @ [CompletedPrinted step_name], w)"
    by (simp add: run_step_def Let_def)
  have b: "(\<exists>x. MainInvoked x \<in> set (fst (snd (run_step imp step_name module_path w))))
        \<longleftrightarrow> (\<exists>f. imp (module_name_of module_path) = Inr (Module (Some f)))"
  proof (cases "imp (module_name_of module_path)")
    case (Inl e)
    then show ?thesis by (simp add: run_step_def print_section_def Let_def)
  next
    case (Inr m)
    show ?thesis
    proof (cases m)
      case (Module mo)
      with Inr show ?thesis
        by (cases mo) (auto simp: run_step_def print_section_def Let_def split: prod.splits option.splits)
    qed
  qed
  from a b show ?thesis by blast
qed

theorem run_step_without_main_passes_witness:
  "demo_importer (module_name_of ''src.train'') = Inr (Module None)
   \<and> run_step demo_importer ''4. Model Training'' ''src.train'' 7 =
        (Inr True,
         [SectionPrinted ''STEP: 4. Model Training'', CompletedPrinted ''4. Model Training''], 7)"
  using run_step_without_main_passes
          [of demo_importer "''src.train''" "''4. Model Training''" 7]
  by (simp add: print_section_def demo_importer_def module_name_of_def)


section \<open>The generated dataset\<close>

subsection \<open>The shuffle is a permutation\<close>





subsection \<open>The stage frames\<close>















lemma is_dir_mkdir_parents: "is_dir (mkdir_parents d fs0) d"
  by (simp add: is_dir_def mkdir_parents_def)







lemma fst_fresh_generate_dataset:
  "fst (fresh_generate_dataset np n rs output_path w) =
     (case generate_stages
             \<lparr>n_per_class = n, random_state = rs, severity_stages = [0, 1, 2, 3, 4]\<rparr>
             [0, 1, 2, 3, 4] [] (seeded_gauss np rs) of
        (Inl e, g') \<Rightarrow> Inl e
      | (Inr stage_data, g') \<Rightarrow>
          (case pd_concat stage_data of
             Inl e \<Rightarrow> Inl e
           | Inr df_all \<Rightarrow> Inr (sample_all np rs df_all)))"
  by (simp add: fresh_generate_dataset_def PentacamDataGenerator_init_def generate_dataset_def
        Let_def to_csv_def is_dir_mkdir_parents
        split: prod.splits sum.splits del: generate_stages.simps)

text \<open>
  Claim C2.  The dataset returned depends on \<open>n_per_class\<close> and \<open>random_state\<close> only:
  two runs that each construct a fresh generator with the same arguments and call
  \<open>generate_dataset\<close> return the same dataset (the same columns with the same values in
  the same order), whatever the state of the global generator and of the files before
  each run.
\<close>

theorem generate_dataset_deterministic:
  "fst (fresh_generate_dataset np n rs output_path w1)
     = fst (fresh_generate_dataset np n rs output_path w2)"
  by (simp only: fst_fresh_generate_dataset)


section \<open>Preprocessing and feature selection\<close>

lemma getitem_cases:
  obtains (missing) "name \<notin> set (column_names df)" "getitem df name = Inl (KeyError name)"
        | (present) v where "name \<in> set (column_names df)" "getitem df name = Inr v"
proof (cases "map_of df name")
  case None
  then have "name \<notin> set (column_names df)"
    by (simp add: column_names_def map_of_eq_None_iff)
  moreover from None have "getitem df name = Inl (KeyError name)"
    by (simp add: getitem_def)
  ultimately show ?thesis by (rule missing)
next
  case (Some v)
  then have "(name, v) \<in> set df" by (rule map_of_SomeD)
  then have "name \<in> set (column_names df)" by (force simp: column_names_def)
  moreover from Some have "getitem df name = Inr v" by (simp add: getitem_def)
  ultimately show ?thesis by (rule present)
qed

lemma preprocessing_main_effect:
  "(case preprocessing_main w of
      (None, w') \<Rightarrow>
        (\<exists>df. dataset_at w raw_path = Some df \<and> dataset_at w' preprocessed_path = Some df)
        \<and> (\<forall>p. p \<noteq> preprocessed_path \<longrightarrow> files (fs w') p = files (fs w) p)
        \<and> dirs (fs w') = dirs (fs w) \<and> np_global w' = np_global w
    | (Some e, w') \<Rightarrow> w' = w)
   \<and> (fst (preprocessing_main w) = None \<longleftrightarrow>
        (\<exists>df. dataset_at w raw_path = Some df \<and> print_ranges df selected_features = None)
        \<and> is_dir (fs w) ''data/processed'')"
proof -
  have dn: "dirname preprocessed_path = ''data/processed''"
    by (simp add: dirname_def path_parents_def preprocessed_path_def)
  show ?thesis
  proof (cases "files (fs w) raw_path")
    case None
    then show ?thesis
      by (simp add: preprocessing_main_def read_csv_def dataset_at_def)
  next
    case (Some c)
    show ?thesis
    proof (cases c)
      case (Csv df)
      show ?thesis
      proof (cases "print_ranges df [''Rm_B'', ''Rm_F'', ''Pachy_Min'']")
        case None
        with Some Csv show ?thesis
          by (simp add: preprocessing_main_def read_csv_def dataset_at_def
                selected_features_def to_csv_def dn del: print_ranges.simps)
      next
        case (Some e)
        with \<open>files (fs w) raw_path = Some c\<close> Csv show ?thesis
          by (simp add: preprocessing_main_def read_csv_def dataset_at_def
                selected_features_def del: print_ranges.simps)
      qed
    next
      case (Pkl m)
      with Some show ?thesis
        by (simp add: preprocessing_main_def read_csv_def dataset_at_def)
    next
      case Png
      with Some show ?thesis
        by (simp add: preprocessing_main_def read_csv_def dataset_at_def)
    qed
  qed
qed

text \<open>
  Claim C4.  Preprocessing is the identity: whenever \<open>main\<close> returns, the dataset in the
  processed file is the dataset that was in the raw file, every other file and the
  directories are as before; when it raises, nothing has been written.  It returns exactly
  when the raw file holds a dataset whose three feature columns can be printed (they are
  there and hold no text) and the directory \<open>data/processed\<close> exists.
\<close>

theorem preprocessing_is_identity:
  "(case preprocessing_main w of
      (None, w') \<Rightarrow>
        (\<exists>df. dataset_at w raw_path = Some df \<and> dataset_at w' preprocessed_path = Some df)
        \<and> (\<forall>p. p \<noteq> preprocessed_path \<longrightarrow> files (fs w') p = files (fs w) p)
        \<and> dirs (fs w') = dirs (fs w) \<and> np_global w' = np_global w
    | (Some e, w') \<Rightarrow> w' = w)
   \<and> (fst (preprocessing_main w) = None \<longleftrightarrow>
        (\<exists>df. dataset_at w raw_path = Some df \<and> print_ranges df selected_features = None)
        \<and> is_dir (fs w) ''data/processed'')"
  by (rule preprocessing_main_effect)

theorem preprocessing_is_identity_witness:
  "fst (preprocessing_main (world_with raw_path one_row_frame)) = None
   \<and> dataset_at (world_with raw_path one_row_frame) raw_path = Some one_row_frame
   \<and> dataset_at (snd (preprocessing_main (world_with raw_path one_row_frame))) preprocessed_path
       = Some one_row_frame"
  using preprocessing_is_identity [where w = "world_with raw_path one_row_frame"]
  by (simp add: world_with_def dataset_at_def raw_path_def preprocessed_path_def
        one_row_frame_def preprocessing_main_def read_csv_def getitem_def to_csv_def
        is_dir_def dirname_def path_parents_def format_range_def is_text_def)

lemma feature_selection_main_effect:
  "(case feature_selection_main pairplot_ok w of
      (None, w') \<Rightarrow>
        (\<exists>df. dataset_at w preprocessed_path = Some df \<and> dataset_at w' selected_path = Some df)
        \<and> (\<forall>p. p \<noteq> selected_path \<and> p \<noteq> ''models/feature_pairplot.png''
               \<longrightarrow> files (fs w') p = files (fs w) p)
        \<and> dirs (fs w') = dirs (fs w) \<and> np_global w' = np_global w
    | (Some e, w') \<Rightarrow> w' = w)
   \<and> (fst (feature_selection_main pairplot_ok w) = None \<longleftrightarrow>
        (\<exists>df. dataset_at w preprocessed_path = Some df) \<and> is_dir (fs w) ''data/processed'')"
proof -
  have dn: "dirname selected_path = ''data/processed''"
    by (simp add: dirname_def path_parents_def selected_path_def)
  have ne: "selected_path \<noteq> ''models/feature_pairplot.png''"
    by (simp add: selected_path_def)
  show ?thesis
  proof (cases "files (fs w) preprocessed_path")
    case None
    then show ?thesis
      by (simp add: feature_selection_main_def read_csv_def dataset_at_def)
  next
    case (Some c)
    then show ?thesis using ne
      by (cases c)
         (auto simp: feature_selection_main_def read_csv_def dataset_at_def to_csv_def dn Let_def)
  qed
qed

text \<open>
  Claim C5, as stated, fails: the feature selector does not project onto the columns
  \<open>['Rm_B', 'Rm_F', 'Pachy_Min']\<close>.  A dataset with a fifth column \<open>K_Max\<close> is written
  with all its five columns, and the dataset of the pipeline's shape is written with its
  \<open>Severity\<close> column as well: in both cases the columns written are not the three
  selected ones.
\<close>

theorem feature_selection_writes_every_column:
  "dataset_at (snd (feature_selection_main always_plots (world_with preprocessed_path wide_frame)))
      selected_path = Some wide_frame
   \<and> column_names wide_frame = [''Severity'', ''Rm_B'', ''Rm_F'', ''Pachy_Min'', ''K_Max'']
   \<and> column_names wide_frame \<noteq> selected_features
   \<and> dataset_at (snd (feature_selection_main always_plots
                          (world_with preprocessed_path one_row_frame)))
      selected_path = Some one_row_frame
   \<and> column_names one_row_frame = [''Severity'', ''Rm_B'', ''Rm_F'', ''Pachy_Min'']
   \<and> column_names one_row_frame \<noteq> selected_features"
  by (simp add: world_with_def dataset_at_def selected_path_def preprocessed_path_def
        one_row_frame_def wide_frame_def feature_selection_main_def read_csv_def to_csv_def
        is_dir_def dirname_def path_parents_def always_plots_def column_names_def
        selected_features_def)

text \<open>
  Claim C5, amended.  The feature selector is an identity pass-through: whenever \<open>main\<close>
  returns, the dataset it has written is the dataset it read, with every column and every
  value; no other file changes, the plot apart; when it raises, nothing has been written.
  It returns exactly when the preprocessed file holds a dataset and the directory
  \<open>data/processed\<close> exists.
\<close>

theorem feature_selection_is_identity:
  "(case feature_selection_main pairplot_ok w of
      (None, w') \<Rightarrow>
        (\<exists>df. dataset_at w preprocessed_path = Some df \<and> dataset_at w' selected_path = Some df)
        \<and> (\<forall>p. p \<noteq> selected_path \<and> p \<noteq> ''models/feature_pairplot.png''
               \<longrightarrow> files (fs w') p = files (fs w) p)
        \<and> dirs (fs w') = dirs (fs w) \<and> np_global w' = np_global w
    | (Some e, w') \<Rightarrow> w' = w)
   \<and> (fst (feature_selection_main pairplot_ok w) = None \<longleftrightarrow>
        (\<exists>df. dataset_at w preprocessed_path = Some df) \<and> is_dir (fs w) ''data/processed'')"
  by (rule feature_selection_main_effect)

theorem feature_selection_is_identity_witness:
  "fst (feature_selection_main always_plots (world_with preprocessed_path one_row_frame)) = None
   \<and> dataset_at (world_with preprocessed_path one_row_frame) preprocessed_path = Some one_row_frame
   \<and> dataset_at (snd (feature_selection_main always_plots
                          (world_with preprocessed_path one_row_frame))) selected_path
       = Some one_row_frame"
  using feature_selection_is_identity
          [where pairplot_ok = always_plots and w = "world_with preprocessed_path one_row_frame"]
  by (simp add: world_with_def dataset_at_def selected_path_def preprocessed_path_def
        one_row_frame_def feature_selection_main_def read_csv_def to_csv_def
        is_dir_def dirname_def path_parents_def always_plots_def)

section \<open>The invariants along the pipeline\<close>























section \<open>The evaluator\<close>









section \<open>The queries of the prediction form\<close>

lemma app_main_queries:
  "set (snd (snd (app_main st fsys)))
     \<subseteq> {[(''Rm_B'', [FloatCell (float_slider st ''Rm_B (mm)'' 4.0 8.0 6.5 0.1)]),
         (''Rm_F'', [FloatCell (float_slider st ''Rm_F (mm)'' 5.0 9.0 7.8 0.1)]),
         (''Pachy_Min'', [IntCell (int_slider st ''Pachy_Min (um)'' 200 600 520 5)])]}"
  by (auto simp: app_main_def Let_def split: sum.splits prod.splits if_splits)

text \<open>
  Claim C9.  Provided Streamlit keeps a slider's value between the minimum and the
  maximum it was created with, every frame the form passes to the model has \<open>Rm_B\<close> in
  \<open>[4, 8]\<close>, \<open>Rm_F\<close> in \<open>[5, 9]\<close> and \<open>Pachy_Min\<close> in \<open>[200, 600]\<close>: the values of the
  sliders are passed on as they are.
\<close>

theorem queries_within_slider_ranges:
  assumes "slider_contract st"
  shows "\<forall>q\<in>set (snd (snd (app_main st fsys))). query_in_range q"
proof -
  from assms have
    "4 \<le> float_slider st ''Rm_B (mm)'' 4.0 8.0 6.5 0.1
      \<and> float_slider st ''Rm_B (mm)'' 4.0 8.0 6.5 0.1 \<le> 8"
    "5 \<le> float_slider st ''Rm_F (mm)'' 5.0 9.0 7.8 0.1
      \<and> float_slider st ''Rm_F (mm)'' 5.0 9.0 7.8 0.1 \<le> 9"
    unfolding slider_contract_def by (force)+
  moreover from assms have
    "200 \<le> int_slider st ''Pachy_Min (um)'' 200 600 520 5
      \<and> int_slider st ''Pachy_Min (um)'' 200 600 520 5 \<le> 600"
    unfolding slider_contract_def by force
  ultimately show ?thesis
    using app_main_queries [of st fsys] by (auto simp: query_in_range_def)
qed

lemma demo_streamlit_contract: "slider_contract demo_streamlit"
  by (auto simp: slider_contract_def demo_streamlit_def)

lemma demo_app_queries:
  "snd (snd (app_main demo_streamlit (fs trained_world))) =
     [ [(''Rm_B'', [FloatCell 8]), (''Rm_F'', [FloatCell 9]), (''Pachy_Min'', [IntCell 200])],
      [(''Rm_B'', [FloatCell 8]), (''Rm_F'', [FloatCell 9]), (''Pachy_Min'', [IntCell 200])] ]"
  by (simp add: app_main_def load_model_def joblib_load_def trained_world_def model_path_def
        raw_path_def demo_streamlit_def demo_classifier_def rows_of_def nrows_def
        first_item_def Let_def)

theorem queries_within_slider_ranges_witness:
  "slider_contract demo_streamlit
   \<and> snd (snd (app_main demo_streamlit (fs trained_world))) =
     [ [(''Rm_B'', [FloatCell 8]), (''Rm_F'', [FloatCell 9]), (''Pachy_Min'', [IntCell 200])],
      [(''Rm_B'', [FloatCell 8]), (''Rm_F'', [FloatCell 9]), (''Pachy_Min'', [IntCell 200])] ]
   \<and> query_in_range
        [(''Rm_B'', [FloatCell 8]), (''Rm_F'', [FloatCell 9]), (''Pachy_Min'', [IntCell 200])]"
  using queries_within_slider_ranges [OF demo_streamlit_contract, of "fs trained_world"]
        demo_streamlit_contract demo_app_queries
  by simp


section \<open>The errors that are signalled\<close>









end
